theory Spec2Isabelle
  imports Complex_Main "HOL-Library.AList" "HOL-Library.Sublist"
begin

section \<open>Python values, exceptions and effects\<close>

text \<open>
  The program is \<^verbatim>\<open>src/fpv_detector.py\<close>. It reads lines from a serial device, decodes
  each one with \<^verbatim>\<open>json.loads\<close>, adds the GPS position and publishes the result.

  The model covers \<^verbatim>\<open>get_gps_location\<close>, \<^verbatim>\<open>read_serial\<close> and \<^verbatim>\<open>main\<close> from
  the choice of the mode (line 101) to the end of the loop body (line 163). It leaves out
  the parsing of the command line, the configuration of \<^verbatim>\<open>logging\<close>, the set-up of the
  ZMQ socket, and the shutdown on \<^verbatim>\<open>KeyboardInterrupt\<close> (lines 165 to 171). It takes
  \<^verbatim>\<open>init_gps_connection\<close>, \<^verbatim>\<open>json.dumps\<close>, \<^verbatim>\<open>send_string\<close> and the
  \<^verbatim>\<open>logging\<close> calls as returning normally.

  A decoded JSON value is one of Python's \<^verbatim>\<open>None\<close>, \<^verbatim>\<open>bool\<close>, \<^verbatim>\<open>int\<close>,
  \<^verbatim>\<open>float\<close>, \<^verbatim>\<open>str\<close>, \<^verbatim>\<open>list\<close> and \<^verbatim>\<open>dict\<close>. A \<^verbatim>\<open>dict\<close> keeps its keys in
  insertion order, so it is an association list; a lookup reads the first entry of a key.
  A float is the number it denotes: the program does no arithmetic on floats, it only
  stores and copies them.
\<close>

datatype json =
    JNull
  | JBool bool
  | JInt int
  | JFloat real
  | JStr string
  | JArr "json list"
  | JObj "(string \<times> json) list"

type_synonym dict = "(string \<times> json) list"

text \<open>A \<^verbatim>\<open>bytes\<close> value is a list of 8-bit characters.\<close>

type_synonym bytes = "char list"

text \<open>The exception classes the program can meet. All of them derive from \<^verbatim>\<open>Exception\<close>.\<close>

datatype py_exn =
    JSONDecodeError
  | AttributeError
  | TypeError
  | StopIteration
  | SerialException
  | OtherException

text \<open>
  Every \<^verbatim>\<open>logging\<close> call is an effect, with its level and its message. A message
  that the source builds with an f-string keeps its arguments instead of the formatted
  text. \<^verbatim>\<open>zmq_socket.send_string(json.dumps(data))\<close> is the effect \<open>Send data\<close>: the
  message on the wire is the serialisation of \<open>data\<close>. \<^verbatim>\<open>time.sleep(n)\<close> is
  \<open>Sleep n\<close>.
\<close>

datatype level = DEBUG | WARNING | ERROR

datatype log_msg =
    Text string
  | Connected string int
  | Raw_data string
  | Serial_error py_exn nat
  | Bound int
  | Published json
  | Failed_parse string
  | Unexpected py_exn

datatype effect =
    Log level log_msg
  | Send json
  | Sleep nat

text \<open>What the generator \<^verbatim>\<open>read_serial\<close> does, in order: it yields a line, logs or sleeps.\<close>

datatype gen_action = Yield string | Gen_log level log_msg | Gen_sleep nat

subsection \<open>Operations of the Python runtime used by the program\<close>

text \<open>\<^verbatim>\<open>obj.get(key, default)\<close>: only a \<^verbatim>\<open>dict\<close> has the method.\<close>

definition get_method :: "json \<Rightarrow> string \<Rightarrow> json \<Rightarrow> py_exn + json" where
  "get_method obj k d =
     (case obj of
        JObj kvs \<Rightarrow> Inr (case map_of kvs k of Some v \<Rightarrow> v | None \<Rightarrow> d)
      | _ \<Rightarrow> Inl AttributeError)"

text \<open>
  \<^verbatim>\<open>needle in obj\<close> for a \<^verbatim>\<open>str\<close> needle: a substring test on a \<^verbatim>\<open>str\<close>,
  membership in a \<^verbatim>\<open>list\<close>, a key test on a \<^verbatim>\<open>dict\<close>, and \<^verbatim>\<open>TypeError\<close> on
  \<^verbatim>\<open>None\<close>, \<^verbatim>\<open>bool\<close>, \<^verbatim>\<open>int\<close> and \<^verbatim>\<open>float\<close>.
\<close>

fun contains :: "string \<Rightarrow> json \<Rightarrow> py_exn + bool" where
  "contains needle (JStr s) = Inr (sublist needle s)"
| "contains needle (JArr xs) = Inr (JStr needle \<in> set xs)"
| "contains needle (JObj kvs) = Inr (needle \<in> fst ` set kvs)"
| "contains needle _ = Inl TypeError"

text \<open>
  \<^verbatim>\<open>obj[key] = value\<close>: on a \<^verbatim>\<open>dict\<close> an existing key keeps its place and gets the
  new value, a new key goes to the end.
\<close>

definition setitem :: "json \<Rightarrow> string \<Rightarrow> json \<Rightarrow> py_exn + json" where
  "setitem obj k v =
     (case obj of
        JObj kvs \<Rightarrow> Inr (JObj (AList.update k v kvs))
      | _ \<Rightarrow> Inl TypeError)"

text \<open>\<^verbatim>\<open>s.strip()\<close> removes the whitespace characters at both ends.\<close>

definition strip :: "(char \<Rightarrow> bool) \<Rightarrow> string \<Rightarrow> string" where
  "strip sp s = rev (dropWhile sp (rev (dropWhile sp s)))"

section \<open>The environment\<close>

text \<open>
  The libraries and devices the program talks to are not part of it. They are parameters:
  \<^item> \<open>loads\<close> is \<^verbatim>\<open>json.loads\<close>: the decoded value, or the exception it raises;
  \<^item> \<open>gpsd_next k\<close> is the outcome of call number \<open>k\<close> of \<^verbatim>\<open>gps_socket.next()\<close>;
  \<^item> \<open>unpack\<close> is \<^verbatim>\<open>data_stream.unpack\<close>: from the received text and the
    \<^verbatim>\<open>TPV\<close> dictionary of the data stream to the new \<^verbatim>\<open>TPV\<close>, or an exception
    (the dictionary is then taken as unchanged);
  \<^item> \<open>new_TPV\<close> is the \<^verbatim>\<open>TPV\<close> dictionary of a fresh \<^verbatim>\<open>gps3.DataStream()\<close>;
  \<^item> \<open>decode\<close> is \<^verbatim>\<open>bytes.decode("utf-8", errors="replace")\<close>;
  \<^item> \<open>isspace\<close> says which characters \<^verbatim>\<open>str.strip\<close> removes.
\<close>

datatype gps_poll = Returns "string option" | Raises py_exn

record env =
  loads :: "string \<Rightarrow> py_exn + json"
  gpsd_next :: "nat \<Rightarrow> gps_poll"
  unpack :: "string \<Rightarrow> dict \<Rightarrow> py_exn + dict"
  new_TPV :: dict
  decode :: "bytes \<Rightarrow> string"
  isspace :: "char \<Rightarrow> bool"

text \<open>The result of \<^verbatim>\<open>parse_args()\<close>.\<close>

record args =
  serial :: string
  baud :: int
  zmq_port :: int
  stationary :: bool
  debug :: bool

definition RECONNECT_DELAY :: nat where
  "RECONNECT_DELAY = 5"

section \<open>The GPS position\<close>

text \<open>
  \<^verbatim>\<open>get_gps_location(gps_socket, data_stream)\<close>. The socket is the number \<open>n\<close> of
  calls of \<^verbatim>\<open>next()\<close> made so far, the data stream is its \<^verbatim>\<open>TPV\<close> dictionary. The
  result is the pair returned or the exception raised, with the new socket and data stream.
  \<^verbatim>\<open>if new_data:\<close> is false for \<^verbatim>\<open>None\<close> and for the empty text. The handler of
  \<^verbatim>\<open>StopIteration\<close> covers the whole \<^verbatim>\<open>try\<close> body.
\<close>

definition get_gps_location ::
  "env \<Rightarrow> nat \<Rightarrow> dict \<Rightarrow> (py_exn + json \<times> json) \<times> nat \<times> dict" where
  "get_gps_location E n tpv =
     (case gpsd_next E n of
        Raises e \<Rightarrow>
          (if e = StopIteration then Inr (JFloat 0, JFloat 0) else Inl e, Suc n, tpv)
      | Returns None \<Rightarrow> (Inr (JFloat 0, JFloat 0), Suc n, tpv)
      | Returns (Some new_data) \<Rightarrow>
          (if new_data \<noteq> [] then
             (case unpack E new_data tpv of
                Inl e \<Rightarrow>
                  (if e = StopIteration then Inr (JFloat 0, JFloat 0) else Inl e, Suc n, tpv)
              | Inr tpv' \<Rightarrow>
                  (Inr (case map_of tpv' ''lat'' of Some v \<Rightarrow> v | None \<Rightarrow> JFloat 0,
                        case map_of tpv' ''lon'' of Some v \<Rightarrow> v | None \<Rightarrow> JFloat 0),
                   Suc n, tpv'))
           else (Inr (JFloat 0, JFloat 0), Suc n, tpv)))"

section \<open>The serial stream\<close>

text \<open>
  One pass of the outer loop of \<^verbatim>\<open>read_serial\<close> is one attempt to connect: either
  \<^verbatim>\<open>serial.Serial(...)\<close> raises, or the device opens, a number of \<^verbatim>\<open>readline()\<close>
  calls return bytes (empty on a timeout), and then an exception ends the connection.
  The generator has no end of its own; a list of attempts is what the device does for
  some time, and the generator is run on it.
\<close>

datatype attempt = Open_raises py_exn | Opened "bytes list" py_exn

text \<open>The inner loop, over the reads that return.\<close>

fun stream_lines :: "env \<Rightarrow> bytes list \<Rightarrow> gen_action list" where
  "stream_lines E [] = []"
| "stream_lines E (raw # raws) =
     (let line = strip (isspace E) (decode E raw)
      in (if line \<noteq> [] then [Gen_log DEBUG (Raw_data line), Yield line] else [])
         @ stream_lines E raws)"

text \<open>
  The outer loop. The result is what the generator did and how it stands after the
  attempts given: \<open>None\<close> when it is still running (about to connect again),
  \<open>Some e\<close> when the exception \<open>e\<close>, which is not a \<^verbatim>\<open>SerialException\<close>, left it
  and ended it.
\<close>

fun read_serial ::
  "env \<Rightarrow> string \<Rightarrow> int \<Rightarrow> attempt list \<Rightarrow> gen_action list \<times> py_exn option" where
  "read_serial E serial_port baud_rate [] = ([], None)"
| "read_serial E serial_port baud_rate (Open_raises e # rest) =
     (if e = SerialException then
        (let (acts, r) = read_serial E serial_port baud_rate rest
         in ([Gen_log ERROR (Serial_error e RECONNECT_DELAY), Gen_sleep RECONNECT_DELAY] @ acts, r))
      else ([], Some e))"
| "read_serial E serial_port baud_rate (Opened raws e # rest) =
     (let lines = Gen_log WARNING (Connected serial_port baud_rate) # stream_lines E raws
      in if e = SerialException then
           (let (acts, r) = read_serial E serial_port baud_rate rest
            in (lines @ [Gen_log ERROR (Serial_error e RECONNECT_DELAY),
                         Gen_sleep RECONNECT_DELAY] @ acts, r))
         else (lines, Some e))"

section \<open>The main loop\<close>

text \<open>
  The variables of \<^verbatim>\<open>main\<close> that live across the loop. \<open>gps_socket\<close> is true while
  the variable holds a socket and false when it is \<^verbatim>\<open>None\<close>; \<open>gps_calls\<close> counts the
  calls of \<^verbatim>\<open>next()\<close> made on the socket; \<open>data_stream\<close> is the \<^verbatim>\<open>TPV\<close> dictionary
  of the data stream, or \<^verbatim>\<open>None\<close>.
\<close>

record state =
  gps_socket :: bool
  gps_calls :: nat
  data_stream :: "dict option"
  lat_cache :: json
  lon_cache :: json

text \<open>Lines 130 to 141: the log entries that depend on the type of the record.\<close>

definition main_inspect :: "json \<Rightarrow> py_exn option \<times> effect list" where
  "main_inspect data =
     (case get_method data ''type'' (JStr []) of
        Inl e \<Rightarrow> (Some e, [])
      | Inr msg_type \<Rightarrow>
          if msg_type = JStr ''nodeMsg'' then
            (None, [Log WARNING (Text ''Boot message received.'')])
          else if msg_type = JStr ''nodeAlert'' then
            (case get_method data ''msg'' (JObj []) of
               Inl e \<Rightarrow> (Some e, [])
             | Inr msg \<Rightarrow>
                 (case get_method msg ''stat'' (JStr []) of
                    Inl e \<Rightarrow> (Some e, [])
                  | Inr stat \<Rightarrow>
                      (case contains ''NEW CONTACT LOCK'' stat of
                         Inl e \<Rightarrow> (Some e, [])
                       | Inr True \<Rightarrow> (None, [Log WARNING (Text ''New FPV Drone detected!'')])
                       | Inr False \<Rightarrow>
                           (case contains ''LOCK UPDATE'' stat of
                              Inl e \<Rightarrow> (Some e, [])
                            | Inr True \<Rightarrow>
                                (None, [Log WARNING (Text ''FPV Drone still in view.'')])
                            | Inr False \<Rightarrow>
                                (case contains ''LOST CONTACT LOCK'' stat of
                                   Inl e \<Rightarrow> (Some e, [])
                                 | Inr True \<Rightarrow>
                                     (None, [Log WARNING (Text ''FPV Drone signal lost.'')])
                                 | Inr False \<Rightarrow> (None, []))))))
          else (None, []))"

text \<open>Lines 144 to 150: the position to attach, and the state after asking for it.\<close>

definition main_position :: "env \<Rightarrow> args \<Rightarrow> state \<Rightarrow> (py_exn + json \<times> json) \<times> state" where
  "main_position E a st =
     (case data_stream st of
        Some tpv \<Rightarrow>
          if \<not> stationary a \<and> gps_socket st then
            (case get_gps_location E (gps_calls st) tpv of
               (r, n, tpv') \<Rightarrow> (r, st\<lparr>gps_calls := n, data_stream := Some tpv'\<rparr>))
          else (Inr (lat_cache st, lon_cache st), st)
      | None \<Rightarrow> (Inr (lat_cache st, lon_cache st), st))"

text \<open>
  Lines 128 to 158, the body of the inner \<^verbatim>\<open>try\<close>: the exception that leaves it, if
  any, the state and the effects up to there.
\<close>

definition main_body :: "env \<Rightarrow> args \<Rightarrow> state \<Rightarrow> string \<Rightarrow> py_exn option \<times> state \<times> effect list" where
  "main_body E a st line =
     (case loads E line of
        Inl e \<Rightarrow> (Some e, st, [])
      | Inr data \<Rightarrow>
          (case main_inspect data of
             (Some e, logs) \<Rightarrow> (Some e, st, logs)
           | (None, logs) \<Rightarrow>
               (case main_position E a st of
                  (Inl e, st') \<Rightarrow> (Some e, st', logs)
                | (Inr (lat, lon), st') \<Rightarrow>
                    (case setitem data ''gps_lat'' lat of
                       Inl e \<Rightarrow> (Some e, st', logs)
                     | Inr data1 \<Rightarrow>
                         (case setitem data1 ''gps_lon'' lon of
                            Inl e \<Rightarrow> (Some e, st', logs)
                          | Inr data2 \<Rightarrow>
                              (None, st',
                               logs @ [Send data2, Log DEBUG (Published data2)]))))))"

text \<open>Lines 126 to 163: one pass of the loop, with the two handlers in their order.\<close>

definition main_record :: "env \<Rightarrow> args \<Rightarrow> state \<Rightarrow> string \<Rightarrow> state \<times> effect list" where
  "main_record E a st line =
     (case main_body E a st line of
        (None, st', effs) \<Rightarrow> (st', effs)
      | (Some e, st', effs) \<Rightarrow>
          if e = JSONDecodeError then (st', effs @ [Log WARNING (Failed_parse line)])
          else (st', effs @ [Log ERROR (Unexpected e)]))"

text \<open>The \<^verbatim>\<open>for\<close> loop over what the generator does.\<close>

fun main_loop :: "env \<Rightarrow> args \<Rightarrow> state \<Rightarrow> gen_action list \<Rightarrow> state \<times> effect list" where
  "main_loop E a st [] = (st, [])"
| "main_loop E a st (Gen_log lvl msg # acts) =
     (let (st', effs) = main_loop E a st acts in (st', Log lvl msg # effs))"
| "main_loop E a st (Gen_sleep n # acts) =
     (let (st', effs) = main_loop E a st acts in (st', Sleep n # effs))"
| "main_loop E a st (Yield line # acts) =
     (let (st1, effs1) = main_record E a st line;
          (st2, effs2) = main_loop E a st1 acts
      in (st2, effs1 @ effs2))"

text \<open>
  Lines 101 to 122: the state at the start of the loop. In stationary mode the position is
  read once and the socket is closed; an exception of that read ends the program.
\<close>

definition main_startup :: "env \<Rightarrow> args \<Rightarrow> py_exn + state \<times> effect list" where
  "main_startup E a =
     (if \<not> stationary a then
        Inr (\<lparr>gps_socket = True, gps_calls = 0, data_stream = Some (new_TPV E),
              lat_cache = JFloat 0, lon_cache = JFloat 0\<rparr>,
             [Log WARNING (Bound (zmq_port a))])
      else
        (case get_gps_location E 0 (new_TPV E) of
           (Inl e, n, tpv) \<Rightarrow> Inl e
         | (Inr (lat, lon), n, tpv) \<Rightarrow>
             Inr (\<lparr>gps_socket = False, gps_calls = n, data_stream = None,
                   lat_cache = lat, lon_cache = lon\<rparr>,
                  [Log WARNING (Bound (zmq_port a))])))"

text \<open>
  \<^verbatim>\<open>main\<close>, for the connection attempts the serial device goes through: the final state,
  all effects in order, and the exception that ended the generator, if one did.
\<close>

definition main :: "env \<Rightarrow> args \<Rightarrow> attempt list \<Rightarrow> py_exn + state \<times> effect list \<times> py_exn option" where
  "main E a attempts =
     (case main_startup E a of
        Inl e \<Rightarrow> Inl e
      | Inr (st0, effs0) \<Rightarrow>
          (let (acts, r) = read_serial E (serial a) (baud a) attempts;
               (st, effs) = main_loop E a st0 acts
           in Inr (st, effs0 @ effs, r)))"

text \<open>The messages published, and the lines yielded, in order.\<close>

fun published :: "effect list \<Rightarrow> json list" where
  "published [] = []"
| "published (Send m # effs) = m # published effs"
| "published (_ # effs) = published effs"

fun yielded :: "gen_action list \<Rightarrow> string list" where
  "yielded [] = []"
| "yielded (Yield l # acts) = l # yielded acts"
| "yielded (_ # acts) = yielded acts"

section \<open>Predicates used to state the results\<close>

text \<open>A JSON number: an \<^verbatim>\<open>int\<close> or a \<^verbatim>\<open>float\<close>.\<close>

fun is_number :: "json \<Rightarrow> bool" where
  "is_number (JInt i) = True"
| "is_number (JFloat x) = True"
| "is_number _ = False"

text \<open>The exception that ends a connection attempt.\<close>

fun ending :: "attempt \<Rightarrow> py_exn" where
  "ending (Open_raises e) = e"
| "ending (Opened raws e) = e"

text \<open>The lines a connection attempt delivers: its reads, decoded and stripped, when not empty.\<close>

fun lines_of :: "env \<Rightarrow> attempt \<Rightarrow> string list" where
  "lines_of E (Open_raises e) = []"
| "lines_of E (Opened raws e) =
     filter (\<lambda>l. l \<noteq> []) (map (\<lambda>raw. strip (isspace E) (decode E raw)) raws)"

text \<open>The two coordinate fields of a published record.\<close>

fun gps_fields :: "json \<Rightarrow> json option \<times> json option" where
  "gps_fields (JObj d) = (map_of d ''gps_lat'', map_of d ''gps_lon'')"
| "gps_fields _ = (None, None)"


section \<open>A sample environment\<close>

text \<open>
  An environment to run the program on: \<^verbatim>\<open>json.loads\<close> on a few lines (every other
  line is taken as invalid JSON), a GPS daemon that has the report (12.34, 56.78) ready at
  the first call of \<^verbatim>\<open>next()\<close> and nothing afterwards, a data stream that starts
  empty, ASCII text, and blank, tab, line feed and carriage return as whitespace.
\<close>

definition sample_loads :: "string \<Rightarrow> py_exn + json" where
  \<open>sample_loads s =
     (if s = ''{"type":"nodeMsg"}'' then Inr (JObj [(''type'', JStr ''nodeMsg'')])
      else if s = ''{"type":"nodeAlert","msg":{"stat":"NEW CONTACT LOCK on 5.8GHz"}}'' then
        Inr (JObj [(''type'', JStr ''nodeAlert''),
                   (''msg'', JObj [(''stat'', JStr ''NEW CONTACT LOCK on 5.8GHz'')])])
      else if s = ''{"type":"nodeAlert","msg":"LOCK UPDATE"}'' then
        Inr (JObj [(''type'', JStr ''nodeAlert''), (''msg'', JStr ''LOCK UPDATE'')])
      else if s = ''{"type":"nodeAlert","msg":{"stat":7}}'' then
        Inr (JObj [(''type'', JStr ''nodeAlert''), (''msg'', JObj [(''stat'', JInt 7)])])
      else if s = ''{"type":"nodeMsg","msg":{"stat":7}}'' then
        Inr (JObj [(''type'', JStr ''nodeMsg''), (''msg'', JObj [(''stat'', JInt 7)])])
      else if s = ''{"type":"nodeStatus","gps_lat":1,"gps_lon":"east"}'' then
        Inr (JObj [(''type'', JStr ''nodeStatus''), (''gps_lat'', JInt 1),
                   (''gps_lon'', JStr ''east'')])
      else if s = ''42'' then Inr (JInt 42)
      else Inl JSONDecodeError)\<close>

definition sample_gpsd :: "nat \<Rightarrow> gps_poll" where
  \<open>sample_gpsd k =
     (if k = 0 then Returns (Some ''{"class":"TPV","lat":12.34,"lon":56.78}'')
      else Returns None)\<close>

definition sample_unpack :: "string \<Rightarrow> dict \<Rightarrow> py_exn + dict" where
  \<open>sample_unpack s tpv =
     (if s = ''{"class":"TPV","lat":12.34,"lon":56.78}'' then
        Inr (AList.update ''lon'' (JFloat 56.78) (AList.update ''lat'' (JFloat 12.34) tpv))
      else Inr tpv)\<close>

definition sample_isspace :: "char \<Rightarrow> bool" where
  "sample_isspace c = (c \<in> set [CHR '' '', CHR 0x09, CHR 0x0A, CHR 0x0D])"

definition sample_env :: env where
  "sample_env =
     \<lparr>loads = sample_loads, gpsd_next = sample_gpsd, unpack = sample_unpack, new_TPV = [],
      decode = id, isspace = sample_isspace\<rparr>"

definition mobile_args :: args where
  "mobile_args =
     \<lparr>serial = ''/dev/ttyACM0'', baud = 115200, zmq_port = 4020, stationary = False,
      debug = False\<rparr>"

definition stationary_args :: args where
  "stationary_args =
     \<lparr>serial = ''/dev/ttyACM0'', baud = 115200, zmq_port = 4020, stationary = True,
      debug = False\<rparr>"

text \<open>The state of the loop in continuous mode before the first record.\<close>

definition mobile_state :: state where
  "mobile_state =
     \<lparr>gps_socket = True, gps_calls = 0, data_stream = Some [],
      lat_cache = JFloat 0, lon_cache = JFloat 0\<rparr>"

text \<open>
  The state in continuous mode after one record: one call of \<^verbatim>\<open>next()\<close> made, the
  report (12.34, 56.78) in the data stream.
\<close>

definition mobile_state_after_fix :: state where
  "mobile_state_after_fix =
     \<lparr>gps_socket = True, gps_calls = 1,
      data_stream = Some [(''lat'', JFloat 12.34), (''lon'', JFloat 56.78)],
      lat_cache = JFloat 0, lon_cache = JFloat 0\<rparr>"

text \<open>
  A second environment, with a data stream that behaves as the one of \<^verbatim>\<open>gps3\<close>: every
  key of a fresh \<^verbatim>\<open>TPV\<close> holds the text \<^verbatim>\<open>n/a\<close>; a \<^verbatim>\<open>TPV\<close> report sets the keys
  it carries and puts \<^verbatim>\<open>n/a\<close> under the others; a report of another class leaves
  \<^verbatim>\<open>TPV\<close> as it is. The daemon has its version banner ready at the first call of
  \<^verbatim>\<open>next()\<close>, a fix at the second, a satellite report at the third, and nothing then.
\<close>

definition gps3_gpsd :: "nat \<Rightarrow> gps_poll" where
  \<open>gps3_gpsd k =
     (if k = 0 then Returns (Some ''{"class":"VERSION","release":"3.22"}'')
      else if k = 1 then Returns (Some ''{"class":"TPV","lat":12.34,"lon":56.78}'')
      else if k = 2 then Returns (Some ''{"class":"SKY"}'')
      else Returns None)\<close>

definition gps3_unpack :: "string \<Rightarrow> dict \<Rightarrow> py_exn + dict" where
  \<open>gps3_unpack s tpv =
     (if s = ''{"class":"TPV","lat":12.34,"lon":56.78}'' then
        Inr (AList.update ''lon'' (JFloat 56.78) (AList.update ''lat'' (JFloat 12.34) tpv))
      else if s = ''{"class":"TPV","mode":1}'' then
        Inr (AList.update ''lon'' (JStr ''n/a'') (AList.update ''lat'' (JStr ''n/a'') tpv))
      else Inr tpv)\<close>

definition gps3_env :: env where
  "gps3_env =
     \<lparr>loads = sample_loads, gpsd_next = gps3_gpsd, unpack = gps3_unpack,
      new_TPV = [(''lat'', JStr ''n/a''), (''lon'', JStr ''n/a'')],
      decode = id, isspace = sample_isspace\<rparr>"

text \<open>The state of the loop in continuous mode before the first record, in this environment.\<close>

definition gps3_state :: state where
  "gps3_state =
     \<lparr>gps_socket = True, gps_calls = 0,
      data_stream = Some [(''lat'', JStr ''n/a''), (''lon'', JStr ''n/a'')],
      lat_cache = JFloat 0, lon_cache = JFloat 0\<rparr>"

text \<open>
  A serial device that cannot be opened at first, then opens, delivers a record, a timeout
  and a blank line and fails; and then opens again and delivers two more lines.
\<close>

definition failed_attempts :: "attempt list" where
  \<open>failed_attempts =
     [Open_raises SerialException,
      Opened [''{"type":"nodeMsg"}\<newline>'', [], ''  \<newline>''] SerialException]\<close>

definition sample_attempts :: "attempt list" where
  \<open>sample_attempts =
     failed_attempts @
     [Opened [''42\<newline>'', ''{"type":"nodeStatus","gps_lat":1,"gps_lon":"east"}\<newline>'']
        SerialException]\<close>

section \<open>Lemmas\<close>

lemma published_append: "published (xs @ ys) = published xs @ published ys"
  by (induction xs rule: published.induct) simp_all

lemma main_inspect_logs: "main_inspect data = (r, logs) \<Longrightarrow> published logs = []"
  by (auto simp: main_inspect_def split: sum.splits bool.splits if_splits)

lemma main_inspect_not_dict:
  "\<nexists>kvs. v = JObj kvs \<Longrightarrow> main_inspect v = (Some AttributeError, [])"
  by (cases v) (simp_all add: main_inspect_def get_method_def)

lemma main_record_object:
  assumes "loads E line = Inr (JObj kvs)"
    and "main_inspect (JObj kvs) = (None, logs)"
    and "main_position E a st = (Inr (lat, lon), st')"
  shows "main_record E a st line =
           (st', logs @
              [Send (JObj (AList.update ''gps_lon'' lon (AList.update ''gps_lat'' lat kvs))),
               Log DEBUG (Published
                 (JObj (AList.update ''gps_lon'' lon (AList.update ''gps_lat'' lat kvs))))])"
  using assms by (simp add: main_record_def main_body_def setitem_def)

lemma main_record_published:
  assumes "loads E line = Inr (JObj kvs)"
    and "fst (main_inspect (JObj kvs)) = None"
    and "main_position E a st = (Inr (lat, lon), st')"
  shows "fst (main_record E a st line) = st'"
    and "published (snd (main_record E a st line)) =
           [JObj (AList.update ''gps_lon'' lon (AList.update ''gps_lat'' lat kvs))]"
proof -
  obtain logs where i: "main_inspect (JObj kvs) = (None, logs)"
    using assms(2) by (cases "main_inspect (JObj kvs)") auto
  from main_record_object [OF assms(1) i assms(3)] main_inspect_logs [OF i]
  show "fst (main_record E a st line) = st'"
    and "published (snd (main_record E a st line)) =
           [JObj (AList.update ''gps_lon'' lon (AList.update ''gps_lat'' lat kvs))]"
    by (simp_all add: published_append)
qed

lemma main_record_raises:
  assumes "loads E line = Inl e"
  shows "main_record E a st line =
           (st, [if e = JSONDecodeError then Log WARNING (Failed_parse line)
                 else Log ERROR (Unexpected e)])"
  using assms by (simp add: main_record_def main_body_def)

lemma main_position_source:
  assumes "main_position E a st = (Inr (lat, lon), st')"
  shows "(lat, lon) = (JFloat 0, JFloat 0) \<or> (lat, lon) = (lat_cache st, lon_cache st) \<or>
         (\<exists>tpv. data_stream st' = Some tpv \<and>
            lat = (case map_of tpv ''lat'' of Some v \<Rightarrow> v | None \<Rightarrow> JFloat 0) \<and>
            lon = (case map_of tpv ''lon'' of Some v \<Rightarrow> v | None \<Rightarrow> JFloat 0))"
proof (cases "data_stream st")
  case None
  with assms have "(lat, lon) = (lat_cache st, lon_cache st)"
    by (auto simp: main_position_def)
  then show ?thesis by blast
next
  case (Some tpv)
  show ?thesis
  proof (cases "\<not> stationary a \<and> gps_socket st")
    case False
    with Some assms have "(lat, lon) = (lat_cache st, lon_cache st)"
      by (auto simp: main_position_def)
    then show ?thesis by blast
  next
    case True
    obtain r n t where g: "get_gps_location E (gps_calls st) tpv = (r, n, t)"
      by (cases "get_gps_location E (gps_calls st) tpv") auto
    with True Some assms have r: "r = Inr (lat, lon)"
      and st': "data_stream st' = Some t"
      by (auto simp: main_position_def)
    from g r have "(lat, lon) = (JFloat 0, JFloat 0) \<or>
        (lat = (case map_of t ''lat'' of Some v \<Rightarrow> v | None \<Rightarrow> JFloat 0) \<and>
         lon = (case map_of t ''lon'' of Some v \<Rightarrow> v | None \<Rightarrow> JFloat 0))"
      by (auto simp: get_gps_location_def
          split: gps_poll.splits option.splits if_splits sum.splits)
    with st' show ?thesis by auto
  qed
qed

lemma main_position_stationary:
  "stationary a \<Longrightarrow> main_position E a st = (Inr (lat_cache st, lon_cache st), st)"
  by (simp add: main_position_def split: option.splits)

lemma attach_keys:
  "fst ` set (AList.update ''gps_lon'' lon (AList.update ''gps_lat'' lat kvs)) =
     fst ` set kvs \<union> {''gps_lat'', ''gps_lon''}"
  by (auto simp: AList.dom_update)

lemma attach_other:
  "k \<noteq> ''gps_lat'' \<Longrightarrow> k \<noteq> ''gps_lon'' \<Longrightarrow>
     map_of (AList.update ''gps_lon'' lon (AList.update ''gps_lat'' lat kvs)) k = map_of kvs k"
  by (simp add: AList.update_conv')

lemma attach_lat:
  "map_of (AList.update ''gps_lon'' lon (AList.update ''gps_lat'' lat kvs)) ''gps_lat'' = Some lat"
  by (simp add: AList.update_conv')

lemma attach_lon:
  "map_of (AList.update ''gps_lon'' lon (AList.update ''gps_lat'' lat kvs)) ''gps_lon'' = Some lon"
  by (simp add: AList.update_conv')

lemma sample_position_0:
  "main_position sample_env mobile_args mobile_state =
     (Inr (JFloat 12.34, JFloat 56.78),
      mobile_state\<lparr>gps_calls := 1,
        data_stream := Some [(''lat'', JFloat 12.34), (''lon'', JFloat 56.78)]\<rparr>)"
  by (simp add: main_position_def mobile_args_def mobile_state_def get_gps_location_def
      sample_env_def sample_gpsd_def sample_unpack_def)

lemma main_record_stationary:
  assumes "stationary a"
  shows "fst (main_record E a st line) = st \<and>
         (\<forall>m\<in>set (published (snd (main_record E a st line))).
            gps_fields m = (Some (lat_cache st), Some (lon_cache st)))"
proof (cases "loads E line")
  case (Inl e)
  then show ?thesis by (simp add: main_record_raises)
next
  case (Inr data)
  obtain r logs where i: "main_inspect data = (r, logs)"
    by (cases "main_inspect data") auto
  have pl: "published logs = []" by (rule main_inspect_logs [OF i])
  show ?thesis
  proof (cases r)
    case (Some e)
    with Inr i pl show ?thesis
      by (simp add: main_record_def main_body_def published_append)
  next
    case None
    show ?thesis
    proof (cases "\<exists>kvs. data = JObj kvs")
      case True
      then obtain kvs where d: "data = JObj kvs" by blast
      from i None d have "fst (main_inspect (JObj kvs)) = None" by simp
      from main_record_published [OF Inr [unfolded d] this main_position_stationary [OF assms]]
      show ?thesis by (simp add: attach_lat attach_lon)
    next
      case False
      then have "main_inspect data = (Some AttributeError, [])"
        by (intro main_inspect_not_dict) blast
      with i None show ?thesis by simp
    qed
  qed
qed

lemma main_loop_stationary:
  assumes "stationary a"
  shows "fst (main_loop E a st acts) = st \<and>
         (\<forall>m\<in>set (published (snd (main_loop E a st acts))).
            gps_fields m = (Some (lat_cache st), Some (lon_cache st)))"
proof (induction acts)
  case Nil
  show ?case by simp
next
  case (Cons act acts)
  show ?case
  proof (cases act)
    case (Gen_log lvl msg)
    with Cons show ?thesis by (simp add: split_beta)
  next
    case (Gen_sleep n)
    with Cons show ?thesis by (simp add: split_beta)
  next
    case (Yield line)
    from main_record_stationary [OF assms, of E st line] Cons Yield
    show ?thesis by (auto simp: split_beta published_append)
  qed
qed

lemma get_gps_location_nothing:
  assumes "gpsd_next E n = Returns None \<or> gpsd_next E n = Returns (Some []) \<or>
           gpsd_next E n = Raises StopIteration"
  shows "get_gps_location E n tpv = (Inr (JFloat 0, JFloat 0), Suc n, tpv)"
  using assms by (auto simp: get_gps_location_def)

lemma main_inspect_other_type:
  assumes "map_of kvs ''type'' \<noteq> Some (JStr ''nodeAlert'')"
  shows "fst (main_inspect (JObj kvs)) = None"
  using assms by (auto simp: main_inspect_def get_method_def split: option.splits)

lemma yielded_append: "yielded (xs @ ys) = yielded xs @ yielded ys"
  by (induction xs rule: yielded.induct) simp_all

lemma strip_all_space:
  assumes "\<forall>c\<in>set s. sp c"
  shows "strip sp s = []"
  using assms by (auto simp: strip_def dest: set_dropWhileD)

lemma last_dropWhile: "dropWhile P xs \<noteq> [] \<Longrightarrow> last (dropWhile P xs) = last xs"
proof -
  assume n: "dropWhile P xs \<noteq> []"
  have "last xs = last (takeWhile P xs @ dropWhile P xs)" by simp
  also have "\<dots> = last (dropWhile P xs)" using n by (rule last_appendR)
  finally show ?thesis by simp
qed

lemma strip_ends:
  assumes "strip sp s \<noteq> []"
  shows "\<not> sp (hd (strip sp s)) \<and> \<not> sp (last (strip sp s))"
proof -
  let ?t = "dropWhile sp s"
  let ?u = "dropWhile sp (rev ?t)"
  from assms have u: "?u \<noteq> []" by (simp add: strip_def)
  have t: "?t \<noteq> []"
  proof
    assume "?t = []"
    then have "?u = []" by (simp only: rev.simps dropWhile.simps)
    with u show False by (simp only:)
  qed
  have "hd (strip sp s) = last ?u" using u by (simp add: strip_def hd_rev)
  also have "\<dots> = last (rev ?t)" using u by (rule last_dropWhile)
  also have "\<dots> = hd ?t" using t by (simp add: last_rev)
  finally have h: "hd (strip sp s) = hd ?t" .
  have l: "last (strip sp s) = hd ?u" using u by (simp add: strip_def last_rev)
  from h l hd_dropWhile [OF t] hd_dropWhile [OF u] show ?thesis by simp
qed

lemma yielded_stream_lines:
  "yielded (stream_lines E raws) =
     filter (\<lambda>l. l \<noteq> []) (map (\<lambda>raw. strip (isspace E) (decode E raw)) raws)"
  by (induction raws) (simp_all add: Let_def yielded_append)

lemma sleeps_stream_lines: "filter (\<lambda>act. act = Gen_sleep n) (stream_lines E raws) = []"
  by (induction raws) (simp_all add: Let_def)

lemma read_serial_append:
  assumes "\<forall>x\<in>set xs. ending x = SerialException"
  shows "read_serial E p b (xs @ rest) =
           (fst (read_serial E p b xs) @ fst (read_serial E p b rest),
            snd (read_serial E p b rest))"
  using assms
proof (induction xs)
  case Nil
  show ?case by simp
next
  case (Cons x xs)
  then show ?case by (cases x) (simp_all add: split_beta Let_def)
qed

lemma read_serial_running:
  assumes "\<forall>x\<in>set xs. ending x = SerialException"
  shows "snd (read_serial E p b xs) = None"
  using assms
proof (induction xs)
  case Nil
  show ?case by simp
next
  case (Cons x xs)
  then show ?case by (cases x) (simp_all add: split_beta Let_def)
qed

lemma read_serial_sleeps:
  assumes "\<forall>x\<in>set xs. ending x = SerialException"
  shows "length (filter (\<lambda>act. act = Gen_sleep 5) (fst (read_serial E p b xs))) = length xs"
  using assms
proof (induction xs)
  case Nil
  show ?case by simp
next
  case (Cons x xs)
  then show ?case
    by (cases x) (simp_all add: split_beta Let_def RECONNECT_DELAY_def sleeps_stream_lines)
qed

lemma read_serial_one_failure:
  assumes "ending x = SerialException"
  shows "\<exists>pre. fst (read_serial E p b [x]) =
           pre @ [Gen_log ERROR (Serial_error SerialException 5), Gen_sleep 5]"
  using assms by (cases x) (simp_all add: RECONNECT_DELAY_def)

lemma read_serial_last_failure:
  assumes "\<forall>x\<in>set xs. ending x = SerialException" and "xs \<noteq> []"
  shows "\<exists>pre. fst (read_serial E p b xs) =
           pre @ [Gen_log ERROR (Serial_error SerialException 5), Gen_sleep 5]"
proof -
  from assms(2) obtain ys y where xs: "xs = ys @ [y]" by (cases xs rule: rev_cases) auto
  with assms(1) have ys: "\<forall>x\<in>set ys. ending x = SerialException"
    and y: "ending y = SerialException" by simp_all
  from read_serial_one_failure [OF y, of E p b] obtain pre
    where "fst (read_serial E p b [y]) =
           pre @ [Gen_log ERROR (Serial_error SerialException 5), Gen_sleep 5]" by blast
  with read_serial_append [OF ys, of E p b "[y]"] xs
  have "fst (read_serial E p b xs) =
      (fst (read_serial E p b ys) @ pre) @
        [Gen_log ERROR (Serial_error SerialException 5), Gen_sleep 5]" by simp
  then show ?thesis by blast
qed

lemma read_serial_first_line:
  assumes "strip (isspace E) (decode E raw) \<noteq> []"
  shows "\<exists>post. yielded (fst (read_serial E p b (Opened (raw # raws) e # rest))) =
           strip (isspace E) (decode E raw) # post"
  using assms by (simp add: split_beta Let_def yielded_append)

lemma read_serial_lines:
  assumes "\<forall>x\<in>set xs. ending x = SerialException"
  shows "yielded (fst (read_serial E p b xs)) = concat (map (lines_of E) xs)"
  using assms
proof (induction xs)
  case Nil
  show ?case by simp
next
  case (Cons x xs)
  then show ?case
    by (cases x) (simp_all add: split_beta Let_def yielded_append yielded_stream_lines)
qed

lemma yielded_read_serial:
  "l \<in> set (yielded (fst (read_serial E p b xs))) \<Longrightarrow>
     l \<noteq> [] \<and> (\<exists>raw. l = strip (isspace E) (decode E raw))"
proof (induction xs)
  case Nil
  then show ?case by simp
next
  case (Cons x xs)
  show ?case
  proof (cases x)
    case (Open_raises e)
    with Cons show ?thesis by (auto simp: split_beta split: if_splits)
  next
    case (Opened raws e)
    with Cons show ?thesis
      by (auto simp: split_beta Let_def yielded_append yielded_stream_lines split: if_splits)
  qed
qed

text \<open>
  When the inspection of an alert raises no error: \<^verbatim>\<open>msg\<close> is absent or an object, and
  \<^verbatim>\<open>stat\<close> in it is absent or a text, a list or an object.
\<close>

lemma main_inspect_alert_raises:
  assumes "map_of kvs ''type'' = Some (JStr ''nodeAlert'')"
  shows "fst (main_inspect (JObj kvs)) = None \<longleftrightarrow>
     (case map_of kvs ''msg'' of
        None \<Rightarrow> True
      | Some (JObj m) \<Rightarrow>
          (case map_of m ''stat'' of
             None \<Rightarrow> True
           | Some (JStr s) \<Rightarrow> True
           | Some (JArr xs) \<Rightarrow> True
           | Some (JObj d) \<Rightarrow> True
           | Some _ \<Rightarrow> False)
      | Some _ \<Rightarrow> False)"
proof -
  have t: "get_method (JObj kvs) ''type'' (JStr []) = Inr (JStr ''nodeAlert'')"
    using assms by (simp add: get_method_def)
  have c: "fst (case contains n1 stat of
                  Inl e \<Rightarrow> (Some e, [])
                | Inr True \<Rightarrow> (None, l1)
                | Inr False \<Rightarrow>
                    (case contains n2 stat of
                       Inl e \<Rightarrow> (Some e, [])
                     | Inr True \<Rightarrow> (None, l2)
                     | Inr False \<Rightarrow>
                         (case contains n3 stat of
                            Inl e \<Rightarrow> (Some e, [])
                          | Inr True \<Rightarrow> (None, l3)
                          | Inr False \<Rightarrow> (None, [])))) = None \<longleftrightarrow>
           (case stat of JStr s \<Rightarrow> True | JArr xs \<Rightarrow> True | JObj d \<Rightarrow> True | _ \<Rightarrow> False)"
    for n1 n2 n3 stat and l1 l2 l3 :: "effect list"
    by (cases stat) (simp_all split: bool.splits)
  show ?thesis
    unfolding main_inspect_def t
    by (simp add: get_method_def c split: option.splits json.splits)
qed

section \<open>Enrichment of one record\<close>

text \<open>
  C1, as the program has it. Take an input line that decodes to a JSON object, for which
  the inspection of the type (lines 130 to 141) raises no error and the position query
  raises no error. Then exactly one record is published. Its fields are the fields of the
  input together with \<^verbatim>\<open>gps_lat\<close> and \<^verbatim>\<open>gps_lon\<close>; every field of the input other
  than these two keeps its value; \<^verbatim>\<open>gps_lat\<close> and \<^verbatim>\<open>gps_lon\<close> hold the pair
  returned by the query. This pair is (0.0, 0.0), or the cached pair, or what the data
  stream holds under \<^verbatim>\<open>lat\<close> and \<^verbatim>\<open>lon\<close> after the query, with 0.0 for a missing
  key. The program does not look at these values.
\<close>

theorem enriched_record_fields:
  assumes "loads E line = Inr (JObj kvs)"
    and "fst (main_inspect (JObj kvs)) = None"
    and "main_position E a st = (Inr (lat, lon), st')"
  shows "\<exists>d. published (snd (main_record E a st line)) = [JObj d] \<and>
           fst ` set d = fst ` set kvs \<union> {''gps_lat'', ''gps_lon''} \<and>
           (\<forall>k. k \<noteq> ''gps_lat'' \<and> k \<noteq> ''gps_lon'' \<longrightarrow> map_of d k = map_of kvs k) \<and>
           map_of d ''gps_lat'' = Some lat \<and> map_of d ''gps_lon'' = Some lon \<and>
           ((lat, lon) = (JFloat 0, JFloat 0) \<or> (lat, lon) = (lat_cache st, lon_cache st) \<or>
            (\<exists>tpv. data_stream st' = Some tpv \<and>
               lat = (case map_of tpv ''lat'' of Some v \<Rightarrow> v | None \<Rightarrow> JFloat 0) \<and>
               lon = (case map_of tpv ''lon'' of Some v \<Rightarrow> v | None \<Rightarrow> JFloat 0)))"
proof -
  let ?d = "AList.update ''gps_lon'' lon (AList.update ''gps_lat'' lat kvs)"
  have "published (snd (main_record E a st line)) = [JObj ?d]"
    by (rule main_record_published(2) [OF assms])
  moreover have "fst ` set ?d = fst ` set kvs \<union> {''gps_lat'', ''gps_lon''}"
    by (rule attach_keys)
  moreover have "\<forall>k. k \<noteq> ''gps_lat'' \<and> k \<noteq> ''gps_lon'' \<longrightarrow> map_of ?d k = map_of kvs k"
    by (simp add: attach_other)
  moreover have "map_of ?d ''gps_lat'' = Some lat" by (rule attach_lat)
  moreover have "map_of ?d ''gps_lon'' = Some lon" by (rule attach_lon)
  moreover note main_position_source [OF assms(3)]
  ultimately show ?thesis by blast
qed

text \<open>
  The theorem at the line \<^verbatim>\<open>{"type":"nodeMsg"}\<close>, in continuous mode, with the report
  (12.34, 56.78) ready at the GPS daemon.
\<close>

theorem enriched_record_fields_witness:
  \<open>loads sample_env ''{"type":"nodeMsg"}'' = Inr (JObj [(''type'', JStr ''nodeMsg'')]) \<and>
   fst (main_inspect (JObj [(''type'', JStr ''nodeMsg'')])) = None \<and>
   main_position sample_env mobile_args mobile_state =
     (Inr (JFloat 12.34, JFloat 56.78),
      mobile_state\<lparr>gps_calls := 1,
        data_stream := Some [(''lat'', JFloat 12.34), (''lon'', JFloat 56.78)]\<rparr>) \<and>
   (\<exists>d. published (snd (main_record sample_env mobile_args mobile_state ''{"type":"nodeMsg"}''))
           = [JObj d] \<and>
        fst ` set d = fst ` set [(''type'', JStr ''nodeMsg'')] \<union> {''gps_lat'', ''gps_lon''} \<and>
        (\<forall>k. k \<noteq> ''gps_lat'' \<and> k \<noteq> ''gps_lon'' \<longrightarrow>
           map_of d k = map_of [(''type'', JStr ''nodeMsg'')] k) \<and>
        map_of d ''gps_lat'' = Some (JFloat 12.34) \<and> map_of d ''gps_lon'' = Some (JFloat 56.78))\<close>
proof -
  have h1: \<open>loads sample_env ''{"type":"nodeMsg"}'' = Inr (JObj [(''type'', JStr ''nodeMsg'')])\<close>
    by (simp add: sample_env_def sample_loads_def)
  have h2: "fst (main_inspect (JObj [(''type'', JStr ''nodeMsg'')])) = None"
    by (simp add: main_inspect_def get_method_def)
  from enriched_record_fields [OF h1 h2 sample_position_0] h1 h2 sample_position_0
  show ?thesis by blast
qed

text \<open>
  C1 as it is written fails, in two ways. First, a line of well-formed JSON can publish
  nothing: \<^verbatim>\<open>{"type":"nodeAlert","msg":"LOCK UPDATE"}\<close> decodes to an object with two
  fields, \<^verbatim>\<open>data.get("msg", {})\<close> is then a \<^verbatim>\<open>str\<close>, its \<^verbatim>\<open>.get\<close> raises
  \<^verbatim>\<open>AttributeError\<close>, and the record is dropped; so is the line \<^verbatim>\<open>42\<close>. Second,
  the added values need not be numbers: with a data stream that holds the text
  \<^verbatim>\<open>n/a\<close> under \<^verbatim>\<open>lat\<close> and \<^verbatim>\<open>lon\<close> and a report pending that is not a fix,
  lines 72 to 76 return that text, and the record \<^verbatim>\<open>{"type":"nodeMsg"}\<close> is published
  with \<^verbatim>\<open>gps_lat\<close> and \<^verbatim>\<open>gps_lon\<close> equal to \<^verbatim>\<open>"n/a"\<close>.
\<close>

theorem enriched_record_fields_counterexample:
  \<open>loads sample_env ''{"type":"nodeAlert","msg":"LOCK UPDATE"}'' =
     Inr (JObj [(''type'', JStr ''nodeAlert''), (''msg'', JStr ''LOCK UPDATE'')]) \<and>
   published (snd (main_record sample_env mobile_args mobile_state
     ''{"type":"nodeAlert","msg":"LOCK UPDATE"}'')) = [] \<and>
   loads sample_env ''42'' = Inr (JInt 42) \<and>
   published (snd (main_record sample_env mobile_args mobile_state ''42'')) = [] \<and>
   loads gps3_env ''{"type":"nodeMsg"}'' = Inr (JObj [(''type'', JStr ''nodeMsg'')]) \<and>
   published (snd (main_record gps3_env mobile_args gps3_state ''{"type":"nodeMsg"}'')) =
     [JObj [(''type'', JStr ''nodeMsg''), (''gps_lat'', JStr ''n/a''),
            (''gps_lon'', JStr ''n/a'')]] \<and>
   \<not> is_number (JStr ''n/a'')\<close>
  by (simp add: main_record_def main_body_def main_inspect_def get_method_def setitem_def
      main_position_def get_gps_location_def mobile_args_def mobile_state_def
      sample_env_def sample_loads_def gps3_env_def gps3_gpsd_def gps3_unpack_def
      gps3_state_def)

section \<open>Records that are dropped\<close>

text \<open>
  C2. When \<^verbatim>\<open>json.loads\<close> rejects the line, the exception that leaves the body is
  \<^verbatim>\<open>JSONDecodeError\<close>, the only effect is the warning of the first handler, nothing is
  published and no variable of the loop changes: the loop goes on with the following lines
  from the same state, and does there exactly what it does without the line.
\<close>

theorem malformed_line_dropped:
  assumes "loads E line = Inl JSONDecodeError"
  shows "fst (main_body E a st line) = Some JSONDecodeError \<and>
         main_record E a st line = (st, [Log WARNING (Failed_parse line)]) \<and>
         published (snd (main_record E a st line)) = [] \<and>
         fst (main_loop E a st (Yield line # acts)) = fst (main_loop E a st acts) \<and>
         snd (main_loop E a st (Yield line # acts)) =
           Log WARNING (Failed_parse line) # snd (main_loop E a st acts)"
proof -
  have b: "fst (main_body E a st line) = Some JSONDecodeError"
    using assms by (simp add: main_body_def)
  have r: "main_record E a st line = (st, [Log WARNING (Failed_parse line)])"
    using main_record_raises [OF assms] by simp
  from b r show ?thesis by (simp add: split_beta)
qed

text \<open>The theorem at a line that does not parse, followed by a boot record.\<close>

theorem malformed_line_dropped_witness:
  \<open>loads sample_env ''not valid json'' = Inl JSONDecodeError \<and>
   main_record sample_env mobile_args mobile_state ''not valid json'' =
     (mobile_state, [Log WARNING (Failed_parse ''not valid json'')]) \<and>
   published (snd (main_loop sample_env mobile_args mobile_state
       [Yield ''{"type":"nodeMsg"}''])) =
     [JObj [(''type'', JStr ''nodeMsg''), (''gps_lat'', JFloat 12.34),
            (''gps_lon'', JFloat 56.78)]] \<and>
   published (snd (main_loop sample_env mobile_args mobile_state
       [Yield ''not valid json'', Yield ''{"type":"nodeMsg"}''])) =
     [JObj [(''type'', JStr ''nodeMsg''), (''gps_lat'', JFloat 12.34),
            (''gps_lon'', JFloat 56.78)]]\<close>
proof -
  have h: "loads sample_env ''not valid json'' = Inl JSONDecodeError"
    by (simp add: sample_env_def sample_loads_def)
  have h1: \<open>loads sample_env ''{"type":"nodeMsg"}'' = Inr (JObj [(''type'', JStr ''nodeMsg'')])\<close>
    by (simp add: sample_env_def sample_loads_def)
  have h2: "fst (main_inspect (JObj [(''type'', JStr ''nodeMsg'')])) = None"
    by (simp add: main_inspect_def get_method_def)
  have p: \<open>published (snd (main_loop sample_env mobile_args mobile_state
       [Yield ''{"type":"nodeMsg"}''])) =
     [JObj [(''type'', JStr ''nodeMsg''), (''gps_lat'', JFloat 12.34),
            (''gps_lon'', JFloat 56.78)]]\<close>
    using main_record_published(2) [OF h1 h2 sample_position_0] by (simp add: split_beta)
  from malformed_line_dropped [OF h, of mobile_args mobile_state
      \<open>[Yield ''{"type":"nodeMsg"}'']\<close>] h p
  show ?thesis by (simp del: main_loop.simps)
qed

text \<open>
  C9. When the line is valid JSON and the decoded value is not an object, \<^verbatim>\<open>data.get\<close>
  raises \<^verbatim>\<open>AttributeError\<close>. The second handler takes it: the only effect is its error
  entry, which is not the warning for a line that does not parse; nothing is published, no
  variable of the loop changes, and the loop goes on with the following lines.
\<close>

theorem non_object_dropped:
  assumes "loads E line = Inr v" and "\<nexists>kvs. v = JObj kvs"
  shows "fst (main_body E a st line) = Some AttributeError \<and>
         main_record E a st line = (st, [Log ERROR (Unexpected AttributeError)]) \<and>
         published (snd (main_record E a st line)) = [] \<and>
         fst (main_loop E a st (Yield line # acts)) = fst (main_loop E a st acts) \<and>
         snd (main_loop E a st (Yield line # acts)) =
           Log ERROR (Unexpected AttributeError) # snd (main_loop E a st acts)"
proof -
  have i: "main_inspect v = (Some AttributeError, [])"
    by (rule main_inspect_not_dict [OF assms(2)])
  have b: "main_body E a st line = (Some AttributeError, st, [])"
    using assms(1) i by (simp add: main_body_def)
  then have r: "main_record E a st line = (st, [Log ERROR (Unexpected AttributeError)])"
    by (simp add: main_record_def)
  from b r show ?thesis by (simp add: split_beta)
qed

theorem non_object_dropped_witness:
  "loads sample_env ''42'' = Inr (JInt 42) \<and> (\<nexists>kvs. JInt 42 = JObj kvs) \<and>
   main_record sample_env mobile_args mobile_state ''42'' =
     (mobile_state, [Log ERROR (Unexpected AttributeError)]) \<and>
   AttributeError \<noteq> JSONDecodeError"
proof -
  have h: "loads sample_env ''42'' = Inr (JInt 42)"
    by (simp add: sample_env_def sample_loads_def)
  have n: "\<nexists>kvs. JInt 42 = JObj kvs" by simp
  from non_object_dropped [OF h n, of mobile_args mobile_state] h
  show ?thesis by simp
qed

section \<open>The type of a record and the fields it brings\<close>

text \<open>
  C8, as the program has it. Take a record that decodes to a JSON object and for which the
  position query raises no error. Whatever its type, the state after the record is the state
  after the position query and the record is published with the two coordinate fields set
  and every other field unchanged, provided that, when the type is \<^verbatim>\<open>nodeAlert\<close>,
  the inspection of the status raises no error. A \<^verbatim>\<open>nodeMsg\<close> record logs the boot
  message and is published like any other.
\<close>

theorem type_does_not_stop_enrichment:
  assumes "loads E line = Inr (JObj kvs)"
    and "main_position E a st = (Inr (lat, lon), st')"
    and "map_of kvs ''type'' = Some (JStr ''nodeAlert'') \<longrightarrow> fst (main_inspect (JObj kvs)) = None"
  shows "fst (main_record E a st line) = st' \<and>
         published (snd (main_record E a st line)) =
           [JObj (AList.update ''gps_lon'' lon (AList.update ''gps_lat'' lat kvs))] \<and>
         (\<forall>k. k \<noteq> ''gps_lat'' \<and> k \<noteq> ''gps_lon'' \<longrightarrow>
            map_of (AList.update ''gps_lon'' lon (AList.update ''gps_lat'' lat kvs)) k =
              map_of kvs k) \<and>
         (map_of kvs ''type'' = Some (JStr ''nodeMsg'') \<longrightarrow>
            snd (main_record E a st line) =
              [Log WARNING (Text ''Boot message received.''),
               Send (JObj (AList.update ''gps_lon'' lon (AList.update ''gps_lat'' lat kvs))),
               Log DEBUG (Published
                 (JObj (AList.update ''gps_lon'' lon (AList.update ''gps_lat'' lat kvs))))])"
proof -
  have i: "fst (main_inspect (JObj kvs)) = None"
    using assms(3) main_inspect_other_type [of kvs] by blast
  have b: "map_of kvs ''type'' = Some (JStr ''nodeMsg'') \<Longrightarrow>
      main_inspect (JObj kvs) = (None, [Log WARNING (Text ''Boot message received.'')])"
    by (simp add: main_inspect_def get_method_def)
  from main_record_published [OF assms(1) i assms(2)]
    main_record_object [OF assms(1) b assms(2)]
  show ?thesis by (simp add: attach_other)
qed

text \<open>The theorem at an alert record and at a boot record of the sample environment.\<close>

theorem type_does_not_stop_enrichment_witness:
  \<open>loads sample_env ''{"type":"nodeAlert","msg":{"stat":"NEW CONTACT LOCK on 5.8GHz"}}'' =
     Inr (JObj [(''type'', JStr ''nodeAlert''),
                (''msg'', JObj [(''stat'', JStr ''NEW CONTACT LOCK on 5.8GHz'')])]) \<and>
   fst (main_inspect (JObj [(''type'', JStr ''nodeAlert''),
                (''msg'', JObj [(''stat'', JStr ''NEW CONTACT LOCK on 5.8GHz'')])])) = None \<and>
   published (snd (main_record sample_env mobile_args mobile_state
       ''{"type":"nodeAlert","msg":{"stat":"NEW CONTACT LOCK on 5.8GHz"}}'')) =
     [JObj [(''type'', JStr ''nodeAlert''),
            (''msg'', JObj [(''stat'', JStr ''NEW CONTACT LOCK on 5.8GHz'')]),
            (''gps_lat'', JFloat 12.34), (''gps_lon'', JFloat 56.78)]] \<and>
   snd (main_record sample_env mobile_args mobile_state ''{"type":"nodeMsg"}'') =
     [Log WARNING (Text ''Boot message received.''),
      Send (JObj [(''type'', JStr ''nodeMsg''), (''gps_lat'', JFloat 12.34),
                  (''gps_lon'', JFloat 56.78)]),
      Log DEBUG (Published (JObj [(''type'', JStr ''nodeMsg''), (''gps_lat'', JFloat 12.34),
                  (''gps_lon'', JFloat 56.78)]))]\<close>
proof -
  let ?alert = "[(''type'', JStr ''nodeAlert''),
                 (''msg'', JObj [(''stat'', JStr ''NEW CONTACT LOCK on 5.8GHz'')])]"
  have h1: \<open>loads sample_env ''{"type":"nodeAlert","msg":{"stat":"NEW CONTACT LOCK on 5.8GHz"}}'' =
     Inr (JObj ?alert)\<close>
    by (simp add: sample_env_def sample_loads_def)
  have h2: "fst (main_inspect (JObj ?alert)) = None"
    by (simp add: main_inspect_def get_method_def)
  then have h2': "map_of ?alert ''type'' = Some (JStr ''nodeAlert'') \<longrightarrow>
      fst (main_inspect (JObj ?alert)) = None" by blast
  have h3: \<open>loads sample_env ''{"type":"nodeMsg"}'' = Inr (JObj [(''type'', JStr ''nodeMsg'')])\<close>
    by (simp add: sample_env_def sample_loads_def)
  have h4: "map_of [(''type'', JStr ''nodeMsg'')] ''type'' = Some (JStr ''nodeAlert'') \<longrightarrow>
      fst (main_inspect (JObj [(''type'', JStr ''nodeMsg'')])) = None" by simp
  from type_does_not_stop_enrichment [OF h1 sample_position_0 h2']
    type_does_not_stop_enrichment [OF h3 sample_position_0 h4] h1 h2
  show ?thesis by simp
qed

text \<open>
  C8 as it is written fails: the type decides whether a record is published. Of two
  records that differ in the type only, with the number 7 under \<^verbatim>\<open>stat\<close>, the
  \<^verbatim>\<open>nodeAlert\<close> one raises \<^verbatim>\<open>TypeError\<close> in \<^verbatim>\<open>"NEW CONTACT LOCK" in stat\<close>
  and is dropped, and the \<^verbatim>\<open>nodeMsg\<close> one is published.
\<close>

theorem type_does_not_stop_enrichment_counterexample:
  \<open>loads sample_env ''{"type":"nodeAlert","msg":{"stat":7}}'' =
     Inr (JObj [(''type'', JStr ''nodeAlert''), (''msg'', JObj [(''stat'', JInt 7)])]) \<and>
   published (snd (main_record sample_env mobile_args mobile_state
     ''{"type":"nodeAlert","msg":{"stat":7}}'')) = [] \<and>
   loads sample_env ''{"type":"nodeMsg","msg":{"stat":7}}'' =
     Inr (JObj [(''type'', JStr ''nodeMsg''), (''msg'', JObj [(''stat'', JInt 7)])]) \<and>
   published (snd (main_record sample_env mobile_args mobile_state
     ''{"type":"nodeMsg","msg":{"stat":7}}'')) =
     [JObj [(''type'', JStr ''nodeMsg''), (''msg'', JObj [(''stat'', JInt 7)]),
            (''gps_lat'', JFloat 12.34), (''gps_lon'', JFloat 56.78)]]\<close>
  by (simp add: main_record_def main_body_def main_inspect_def get_method_def setitem_def
      main_position_def get_gps_location_def mobile_args_def mobile_state_def
      sample_env_def sample_loads_def sample_gpsd_def sample_unpack_def)

text \<open>
  C10. When a record that already has a field \<^verbatim>\<open>gps_lat\<close> or \<^verbatim>\<open>gps_lon\<close>
  reaches lines 152 and 153, the published record holds the position returned by the query
  under both names, whatever the input had there. A field that was present keeps its
  place and no key is doubled.
\<close>

theorem own_coordinates_overwritten:
  assumes "loads E line = Inr (JObj kvs)"
    and "''gps_lat'' \<in> fst ` set kvs \<or> ''gps_lon'' \<in> fst ` set kvs"
    and "fst (main_inspect (JObj kvs)) = None"
    and "main_position E a st = (Inr (lat, lon), st')"
  shows "\<exists>d. published (snd (main_record E a st line)) = [JObj d] \<and>
           gps_fields (JObj d) = (Some lat, Some lon) \<and>
           (''gps_lat'' \<in> fst ` set kvs \<and> ''gps_lon'' \<in> fst ` set kvs \<longrightarrow>
              map fst d = map fst kvs) \<and>
           (distinct (map fst kvs) \<longrightarrow> distinct (map fst d))"
proof -
  let ?d = "AList.update ''gps_lon'' lon (AList.update ''gps_lat'' lat kvs)"
  have "published (snd (main_record E a st line)) = [JObj ?d]"
    by (rule main_record_published(2) [OF assms(1,3,4)])
  moreover have "gps_fields (JObj ?d) = (Some lat, Some lon)"
    by (simp add: attach_lat attach_lon)
  moreover have "''gps_lat'' \<in> fst ` set kvs \<and> ''gps_lon'' \<in> fst ` set kvs \<longrightarrow>
      map fst ?d = map fst kvs"
    by (simp add: AList.update_keys)
  moreover have "distinct (map fst kvs) \<longrightarrow> distinct (map fst ?d)"
    by (simp add: AList.distinct_update)
  ultimately show ?thesis by blast
qed

theorem own_coordinates_overwritten_witness:
  \<open>loads sample_env ''{"type":"nodeStatus","gps_lat":1,"gps_lon":"east"}'' =
     Inr (JObj [(''type'', JStr ''nodeStatus''), (''gps_lat'', JInt 1),
                (''gps_lon'', JStr ''east'')]) \<and>
   published (snd (main_record sample_env mobile_args mobile_state
       ''{"type":"nodeStatus","gps_lat":1,"gps_lon":"east"}'')) =
     [JObj [(''type'', JStr ''nodeStatus''), (''gps_lat'', JFloat 12.34),
            (''gps_lon'', JFloat 56.78)]] \<and>
   (\<exists>d. published (snd (main_record sample_env mobile_args mobile_state
            ''{"type":"nodeStatus","gps_lat":1,"gps_lon":"east"}'')) = [JObj d] \<and>
        gps_fields (JObj d) = (Some (JFloat 12.34), Some (JFloat 56.78)) \<and>
        map fst d = [''type'', ''gps_lat'', ''gps_lon''])\<close>
proof -
  let ?kvs = "[(''type'', JStr ''nodeStatus''), (''gps_lat'', JInt 1), (''gps_lon'', JStr ''east'')]"
  have h1: \<open>loads sample_env ''{"type":"nodeStatus","gps_lat":1,"gps_lon":"east"}'' =
     Inr (JObj ?kvs)\<close>
    by (simp add: sample_env_def sample_loads_def)
  have h2: "''gps_lat'' \<in> fst ` set ?kvs \<or> ''gps_lon'' \<in> fst ` set ?kvs" by simp
  have h3: "fst (main_inspect (JObj ?kvs)) = None"
    by (simp add: main_inspect_def get_method_def)
  have p: \<open>published (snd (main_record sample_env mobile_args mobile_state
       ''{"type":"nodeStatus","gps_lat":1,"gps_lon":"east"}'')) =
     [JObj [(''type'', JStr ''nodeStatus''), (''gps_lat'', JFloat 12.34),
            (''gps_lon'', JFloat 56.78)]]\<close>
    using main_record_published(2) [OF h1 h3 sample_position_0] by simp
  from own_coordinates_overwritten [OF h1 h2 h3 sample_position_0] h1 p
  show ?thesis by simp
qed

section \<open>The log entries of an alert\<close>



section \<open>The position attached\<close>

text \<open>
  C3. In stationary mode, when \<^verbatim>\<open>main\<close> gets past its start, \<^verbatim>\<open>next()\<close> has been
  called once in the whole run, the socket variable is \<^verbatim>\<open>None\<close>, the cached pair is what
  that one call of \<^verbatim>\<open>get_gps_location\<close> returned, and every record published carries
  this pair. So any two published records have the same coordinates.
\<close>

theorem stationary_fix_once:
  assumes "stationary a" and "main E a attempts = Inr (st, effs, r)"
  shows "gps_calls st = 1 \<and> \<not> gps_socket st \<and>
         fst (get_gps_location E 0 (new_TPV E)) = Inr (lat_cache st, lon_cache st) \<and>
         (\<forall>m\<in>set (published effs). gps_fields m = (Some (lat_cache st), Some (lon_cache st)))"
proof -
  obtain res n tpv where g: "get_gps_location E 0 (new_TPV E) = (res, n, tpv)"
    by (cases "get_gps_location E 0 (new_TPV E)") auto
  have n: "n = 1"
    using g by (auto simp: get_gps_location_def split: gps_poll.splits option.splits
        if_splits sum.splits)
  from assms g obtain lat lon where res: "res = Inr (lat, lon)"
    by (cases res) (auto simp: main_def main_startup_def)
  let ?st0 = "\<lparr>gps_socket = False, gps_calls = n, data_stream = None,
               lat_cache = lat, lon_cache = lon\<rparr>"
  let ?acts = "fst (read_serial E (serial a) (baud a) attempts)"
  from assms g res
  have st: "st = fst (main_loop E a ?st0 ?acts)"
    and effs: "effs = Log WARNING (Bound (zmq_port a)) # snd (main_loop E a ?st0 ?acts)"
    by (auto simp: main_def main_startup_def split_beta)
  from main_loop_stationary [OF assms(1), of E ?st0 ?acts] st
  have st0: "st = ?st0"
    and p: "\<forall>m\<in>set (published (snd (main_loop E a ?st0 ?acts))).
              gps_fields m = (Some lat, Some lon)"
    by simp_all
  from st0 n g res effs p show ?thesis by simp
qed

theorem stationary_fix_once_witness:
  "stationary stationary_args \<and>
   (\<exists>st effs r. main sample_env stationary_args sample_attempts = Inr (st, effs, r) \<and>
      gps_calls st = 1 \<and>
      published effs =
        [JObj [(''type'', JStr ''nodeMsg''), (''gps_lat'', JFloat 12.34),
               (''gps_lon'', JFloat 56.78)],
         JObj [(''type'', JStr ''nodeStatus''), (''gps_lat'', JFloat 12.34),
               (''gps_lon'', JFloat 56.78)]] \<and>
      (\<forall>m\<in>set (published effs). gps_fields m = (Some (lat_cache st), Some (lon_cache st))))"
proof -
  have s: "stationary stationary_args" by (simp add: stationary_args_def)
  obtain st effs r where m: "main sample_env stationary_args sample_attempts = Inr (st, effs, r)"
    and p: "published effs =
        [JObj [(''type'', JStr ''nodeMsg''), (''gps_lat'', JFloat 12.34),
               (''gps_lon'', JFloat 56.78)],
         JObj [(''type'', JStr ''nodeStatus''), (''gps_lat'', JFloat 12.34),
               (''gps_lon'', JFloat 56.78)]]"
    by (simp add: main_def main_startup_def get_gps_location_def sample_env_def sample_gpsd_def
        sample_unpack_def sample_loads_def sample_isspace_def stationary_args_def
        sample_attempts_def failed_attempts_def strip_def main_record_def main_body_def
        main_inspect_def
        main_position_def get_method_def setitem_def RECONNECT_DELAY_def Let_def)
  from stationary_fix_once [OF s m] s m p show ?thesis by blast
qed

text \<open>
  C4, as the program has it. In continuous mode, when \<^verbatim>\<open>next()\<close> has nothing to return
  for the current record (it returns \<^verbatim>\<open>None\<close> or an empty text, or raises
  \<^verbatim>\<open>StopIteration\<close>), the position is (0.0, 0.0) whatever the data stream holds from
  earlier reports, and a record that gets as far as line 152 is published with these
  coordinates.
\<close>

theorem no_pending_fix_default:
  assumes "\<not> stationary a" and "gps_socket st" and "data_stream st = Some tpv"
    and "gpsd_next E (gps_calls st) = Returns None \<or>
         gpsd_next E (gps_calls st) = Returns (Some []) \<or>
         gpsd_next E (gps_calls st) = Raises StopIteration"
    and "loads E line = Inr (JObj kvs)"
    and "fst (main_inspect (JObj kvs)) = None"
  shows "main_position E a st =
           (Inr (JFloat 0, JFloat 0), st\<lparr>gps_calls := Suc (gps_calls st), data_stream := Some tpv\<rparr>) \<and>
         map gps_fields (published (snd (main_record E a st line))) =
           [(Some (JFloat 0), Some (JFloat 0))]"
proof -
  have p: "main_position E a st =
      (Inr (JFloat 0, JFloat 0), st\<lparr>gps_calls := Suc (gps_calls st), data_stream := Some tpv\<rparr>)"
    using assms(1-3) get_gps_location_nothing [OF assms(4)]
    by (simp add: main_position_def)
  from main_record_published(2) [OF assms(5,6) p] p
  show ?thesis by (simp add: attach_lat attach_lon)
qed

theorem no_pending_fix_default_witness:
  \<open>\<not> stationary mobile_args \<and> gps_socket mobile_state_after_fix \<and>
   data_stream mobile_state_after_fix = Some [(''lat'', JFloat 12.34), (''lon'', JFloat 56.78)] \<and>
   gpsd_next sample_env (gps_calls mobile_state_after_fix) = Returns None \<and>
   loads sample_env ''{"type":"nodeMsg"}'' = Inr (JObj [(''type'', JStr ''nodeMsg'')]) \<and>
   fst (main_inspect (JObj [(''type'', JStr ''nodeMsg'')])) = None \<and>
   map gps_fields (published (snd (main_record sample_env mobile_args mobile_state_after_fix
       ''{"type":"nodeMsg"}''))) = [(Some (JFloat 0), Some (JFloat 0))]\<close>
proof -
  have h1: "\<not> stationary mobile_args" by (simp add: mobile_args_def)
  have h2: "gps_socket mobile_state_after_fix" by (simp add: mobile_state_after_fix_def)
  have h3: "data_stream mobile_state_after_fix = Some [(''lat'', JFloat 12.34), (''lon'', JFloat 56.78)]"
    by (simp add: mobile_state_after_fix_def)
  have h4: "gpsd_next sample_env (gps_calls mobile_state_after_fix) = Returns None"
    by (simp add: mobile_state_after_fix_def sample_env_def sample_gpsd_def)
  then have h4': "gpsd_next sample_env (gps_calls mobile_state_after_fix) = Returns None \<or>
         gpsd_next sample_env (gps_calls mobile_state_after_fix) = Returns (Some []) \<or>
         gpsd_next sample_env (gps_calls mobile_state_after_fix) = Raises StopIteration"
    by simp
  have h5: \<open>loads sample_env ''{"type":"nodeMsg"}'' = Inr (JObj [(''type'', JStr ''nodeMsg'')])\<close>
    by (simp add: sample_env_def sample_loads_def)
  have h6: "fst (main_inspect (JObj [(''type'', JStr ''nodeMsg'')])) = None"
    by (simp add: main_inspect_def get_method_def)
  from no_pending_fix_default [OF h1 h2 h3 h4' h5 h6] h1 h2 h3 h4 h5 h6
  show ?thesis by simp
qed

text \<open>
  C4 as it is written fails. No fix is pending when the daemon has a report ready that is
  not a fix. \<^verbatim>\<open>next()\<close> then returns a text, lines 72 to 76 unpack it and return what
  the data stream holds, and that is the pair of the last fix. Four records in a row: with
  the banner pending the first carries \<^verbatim>\<open>n/a\<close>, with the fix pending the second
  carries (12.34, 56.78), with a satellite report pending the third carries (12.34, 56.78)
  again, and with nothing pending the fourth carries (0.0, 0.0).
\<close>

theorem no_pending_fix_default_counterexample:
  \<open>gpsd_next gps3_env 2 = Returns (Some ''{"class":"SKY"}'') \<and>
   map gps_fields (published (snd (main_loop gps3_env mobile_args gps3_state
     [Yield ''{"type":"nodeMsg"}'', Yield ''{"type":"nodeMsg"}'', Yield ''{"type":"nodeMsg"}'',
      Yield ''{"type":"nodeMsg"}'']))) =
     [(Some (JStr ''n/a''), Some (JStr ''n/a'')),
      (Some (JFloat 12.34), Some (JFloat 56.78)),
      (Some (JFloat 12.34), Some (JFloat 56.78)),
      (Some (JFloat 0), Some (JFloat 0))]\<close>
  by (simp add: main_record_def main_body_def main_inspect_def get_method_def setitem_def
      main_position_def get_gps_location_def mobile_args_def
      sample_loads_def gps3_env_def gps3_gpsd_def gps3_unpack_def gps3_state_def)

section \<open>The reconnecting stream\<close>

text \<open>
  C5. Let every connection attempt in \<open>xs\<close> end in a \<^verbatim>\<open>SerialException\<close>, at opening
  or at a read. Then the generator is still running after them; what it does on further
  attempts is what a fresh generator does, appended; it has slept 5 seconds once per
  failure, as the last thing it did for that attempt; it has yielded every line the
  attempts delivered, in order, so the sequence of lines never ends as long as the device
  delivers; and when the next attempt opens and reads a line that is not blank, this line
  is the next one yielded.
\<close>

theorem reconnect_after_transport_failure:
  assumes "\<forall>x\<in>set xs. ending x = SerialException"
  shows "snd (read_serial E p b xs) = None \<and>
         read_serial E p b (xs @ rest) =
           (fst (read_serial E p b xs) @ fst (read_serial E p b rest),
            snd (read_serial E p b rest)) \<and>
         length (filter (\<lambda>act. act = Gen_sleep 5) (fst (read_serial E p b xs))) = length xs \<and>
         yielded (fst (read_serial E p b xs)) = concat (map (lines_of E) xs) \<and>
         (xs \<noteq> [] \<longrightarrow>
            (\<exists>pre. fst (read_serial E p b xs) =
               pre @ [Gen_log ERROR (Serial_error SerialException 5), Gen_sleep 5])) \<and>
         (strip (isspace E) (decode E raw) \<noteq> [] \<longrightarrow>
            (\<exists>post. yielded (fst (read_serial E p b (xs @ Opened (raw # raws) e # later))) =
               yielded (fst (read_serial E p b xs)) @ strip (isspace E) (decode E raw) # post))"
proof -
  have 1: "snd (read_serial E p b xs) = None" by (rule read_serial_running [OF assms])
  have 2: "read_serial E p b (xs @ rest) =
           (fst (read_serial E p b xs) @ fst (read_serial E p b rest),
            snd (read_serial E p b rest))" by (rule read_serial_append [OF assms])
  have 3: "length (filter (\<lambda>act. act = Gen_sleep 5) (fst (read_serial E p b xs))) = length xs"
    by (rule read_serial_sleeps [OF assms])
  have 6: "yielded (fst (read_serial E p b xs)) = concat (map (lines_of E) xs)"
    by (rule read_serial_lines [OF assms])
  have 4: "xs \<noteq> [] \<longrightarrow>
            (\<exists>pre. fst (read_serial E p b xs) =
               pre @ [Gen_log ERROR (Serial_error SerialException 5), Gen_sleep 5])"
    using read_serial_last_failure [OF assms] by blast
  have 5: "strip (isspace E) (decode E raw) \<noteq> [] \<longrightarrow>
            (\<exists>post. yielded (fst (read_serial E p b (xs @ Opened (raw # raws) e # later))) =
               yielded (fst (read_serial E p b xs)) @ strip (isspace E) (decode E raw) # post)"
  proof
    assume "strip (isspace E) (decode E raw) \<noteq> []"
    from read_serial_first_line [OF this, of p b raws e later] obtain post
      where "yielded (fst (read_serial E p b (Opened (raw # raws) e # later))) =
           strip (isspace E) (decode E raw) # post" by blast
    with read_serial_append [OF assms, of E p b "Opened (raw # raws) e # later"]
    show "\<exists>post. yielded (fst (read_serial E p b (xs @ Opened (raw # raws) e # later))) =
               yielded (fst (read_serial E p b xs)) @ strip (isspace E) (decode E raw) # post"
      by (simp add: yielded_append)
  qed
  from 1 2 3 4 5 6 show ?thesis by blast
qed

theorem reconnect_after_transport_failure_witness:
  \<open>map ending failed_attempts = [SerialException, SerialException] \<and>
   read_serial sample_env ''/dev/ttyACM0'' 115200 failed_attempts =
     ([Gen_log ERROR (Serial_error SerialException 5), Gen_sleep 5,
       Gen_log WARNING (Connected ''/dev/ttyACM0'' 115200),
       Gen_log DEBUG (Raw_data ''{"type":"nodeMsg"}''), Yield ''{"type":"nodeMsg"}'',
       Gen_log ERROR (Serial_error SerialException 5), Gen_sleep 5], None) \<and>
   strip (isspace sample_env) (decode sample_env ''42\<newline>'') = ''42'' \<and>
   (\<exists>post. yielded (fst (read_serial sample_env ''/dev/ttyACM0'' 115200 sample_attempts)) =
      [''{"type":"nodeMsg"}'', ''42''] @ post)\<close>
proof -
  have h: "\<forall>x\<in>set failed_attempts. ending x = SerialException"
    by (simp add: failed_attempts_def)
  have r: \<open>read_serial sample_env ''/dev/ttyACM0'' 115200 failed_attempts =
     ([Gen_log ERROR (Serial_error SerialException 5), Gen_sleep 5,
       Gen_log WARNING (Connected ''/dev/ttyACM0'' 115200),
       Gen_log DEBUG (Raw_data ''{"type":"nodeMsg"}''), Yield ''{"type":"nodeMsg"}'',
       Gen_log ERROR (Serial_error SerialException 5), Gen_sleep 5], None)\<close>
    by (simp add: failed_attempts_def sample_env_def sample_isspace_def strip_def
        RECONNECT_DELAY_def Let_def)
  have s: "strip (isspace sample_env) (decode sample_env ''42\<newline>'') = ''42''"
    by (simp add: sample_env_def sample_isspace_def strip_def)
  have m: "map ending failed_attempts = [SerialException, SerialException]"
    by (simp add: failed_attempts_def)
  from reconnect_after_transport_failure [OF h, of sample_env "''/dev/ttyACM0''" 115200 "[]"
      "''42\<newline>''" \<open>[''{"type":"nodeStatus","gps_lat":1,"gps_lon":"east"}\<newline>'']\<close>
      SerialException "[]"] m r s
  show ?thesis by (simp add: sample_attempts_def)
qed

text \<open>
  C6. The lines yielded for a sequence of reads are the decoded and stripped reads that are
  not empty, in order. Every line the generator yields is not empty, is the decoded and
  stripped form of a read, and has no whitespace at either end. A read whose stripped form
  is empty, as for a timeout or a read of whitespace only, yields nothing and logs nothing.
\<close>

theorem emitted_lines_nonempty:
  "yielded (stream_lines E raws) =
     filter (\<lambda>l. l \<noteq> []) (map (\<lambda>raw. strip (isspace E) (decode E raw)) raws) \<and>
   (\<forall>l\<in>set (yielded (fst (read_serial E p b xs))).
      l \<noteq> [] \<and> (\<exists>raw. l = strip (isspace E) (decode E raw)) \<and>
      \<not> isspace E (hd l) \<and> \<not> isspace E (last l)) \<and>
   (strip (isspace E) (decode E raw) = [] \<longrightarrow> stream_lines E [raw] = []) \<and>
   ((\<forall>c\<in>set (decode E raw). isspace E c) \<longrightarrow> stream_lines E [raw] = [])"
proof -
  have 1: "yielded (stream_lines E raws) =
     filter (\<lambda>l. l \<noteq> []) (map (\<lambda>raw. strip (isspace E) (decode E raw)) raws)"
    by (rule yielded_stream_lines)
  have 2: "\<forall>l\<in>set (yielded (fst (read_serial E p b xs))).
      l \<noteq> [] \<and> (\<exists>raw. l = strip (isspace E) (decode E raw)) \<and>
      \<not> isspace E (hd l) \<and> \<not> isspace E (last l)"
  proof
    fix l assume "l \<in> set (yielded (fst (read_serial E p b xs)))"
    from yielded_read_serial [OF this] obtain raw
      where n: "l \<noteq> []" and l: "l = strip (isspace E) (decode E raw)" by blast
    from strip_ends [of "isspace E" "decode E raw"] n l
    show "l \<noteq> [] \<and> (\<exists>raw. l = strip (isspace E) (decode E raw)) \<and>
      \<not> isspace E (hd l) \<and> \<not> isspace E (last l)" by auto
  qed
  have 3: "strip (isspace E) (decode E raw) = [] \<longrightarrow> stream_lines E [raw] = []"
    by simp
  have 4: "(\<forall>c\<in>set (decode E raw). isspace E c) \<longrightarrow> stream_lines E [raw] = []"
    using strip_all_space [of "decode E raw" "isspace E"] by simp
  from 1 2 3 4 show ?thesis by blast
qed

theorem emitted_lines_nonempty_witness:
  \<open>yielded (stream_lines sample_env [''{"type":"nodeMsg"}\<newline>'', [], ''  \<newline>'']) =
     [''{"type":"nodeMsg"}''] \<and>
   list_all (isspace sample_env) (decode sample_env ''  \<newline>'') \<and>
   stream_lines sample_env [''  \<newline>''] = [] \<and>
   yielded (fst (read_serial sample_env ''/dev/ttyACM0'' 115200 sample_attempts)) =
     [''{"type":"nodeMsg"}'', ''42'', ''{"type":"nodeStatus","gps_lat":1,"gps_lon":"east"}''] \<and>
   list_all (\<lambda>l. l \<noteq> [] \<and> \<not> isspace sample_env (hd l) \<and> \<not> isspace sample_env (last l))
     (yielded (fst (read_serial sample_env ''/dev/ttyACM0'' 115200 sample_attempts)))\<close>
proof -
  have c: "\<forall>c\<in>set (decode sample_env ''  \<newline>''). isspace sample_env c"
    by (simp add: sample_env_def sample_isspace_def)
  have f: \<open>filter (\<lambda>l. l \<noteq> [])
      (map (\<lambda>raw. strip (isspace sample_env) (decode sample_env raw))
        [''{"type":"nodeMsg"}\<newline>'', [], ''  \<newline>'']) = [''{"type":"nodeMsg"}'']\<close>
    by (simp add: sample_env_def sample_isspace_def strip_def)
  have y: \<open>yielded (fst (read_serial sample_env ''/dev/ttyACM0'' 115200 sample_attempts)) =
     [''{"type":"nodeMsg"}'', ''42'', ''{"type":"nodeStatus","gps_lat":1,"gps_lon":"east"}'']\<close>
    by (simp add: sample_attempts_def failed_attempts_def sample_env_def sample_isspace_def
        strip_def Let_def)
  from emitted_lines_nonempty [of sample_env
      \<open>[''{"type":"nodeMsg"}\<newline>'', [], ''  \<newline>'']\<close>
      "''/dev/ttyACM0''" 115200 sample_attempts "''  \<newline>''"] c f y
  show ?thesis by (simp del: stream_lines.simps add: list_all_iff)
qed

end
